theory Spec2Isabelle
  imports Main "HOL-Library.Word"
begin

section \<open>Python values: exceptions, strings, table cells\<close>

text \<open>
  The program is one Python module, \<^verbatim>\<open>function_app.py\<close>: module-level code that reads the
  settings, \<^verbatim>\<open>run_simulation_batch\<close> and the HTTP entry point
  \<^verbatim>\<open>http_trigger_function\<close>. Exceptions are values of a sum type; the log, the requests
  sent to the completion service and the items written to the container are traces in an
  explicit state; everything the libraries decide (file contents, service replies, storage
  failures, random identifiers) is a parameter.

  The exception classes that the control flow distinguishes. In Python 3
  \<^verbatim>\<open>EnvironmentError\<close> is another name of \<^verbatim>\<open>OSError\<close>, and
  \<^verbatim>\<open>FileNotFoundError\<close> is a subclass of it. \<open>LibraryError\<close> stands for the
  exception classes of the service and storage libraries, which derive from
  \<^verbatim>\<open>Exception\<close> directly. Every class here is a subclass of \<^verbatim>\<open>Exception\<close>.
\<close>

datatype exc_class = KeyError | TypeError | OSError | FileNotFoundError | ValidationError | LibraryError

abbreviation EnvironmentError :: exc_class where
  "EnvironmentError \<equiv> OSError"

fun issubclass :: "exc_class \<Rightarrow> exc_class \<Rightarrow> bool" where
  "issubclass FileNotFoundError OSError = True"
| "issubclass c d = (c = d)"

text \<open>An exception object: its class and the text \<^verbatim>\<open>str(e)\<close> gives.\<close>

datatype exn = Exn (cls: exc_class) (str_exn: string)

definition sq :: string where
  "sq = [CHR 0x27]"

definition nl :: string where
  "nl = [CHR 0x0A]"

text \<open>Characters outside ASCII are written as their UTF-8 bytes.\<close>

definition L_equiv_T :: string where
  "L_equiv_T = ''L '' @ [CHR 0xE2, CHR 0x89, CHR 0xA1] @ '' T''"

definition check_mark :: string where
  "check_mark = [CHR 0xE2, CHR 0x9C, CHR 0x85]"

definition digit_char :: "nat \<Rightarrow> char" where
  "digit_char d = ''0123456789abcdef'' ! d"

fun str_nat :: "nat \<Rightarrow> string" where
  "str_nat n = (if n < 10 then [digit_char n] else str_nat (n div 10) @ [digit_char (n mod 10)])"

declare str_nat.simps [simp del]

definition str_int :: "int \<Rightarrow> string" where
  "str_int i = (if i < 0 then ''-'' @ str_nat (nat (- i)) else str_nat (nat i))"

text \<open>\<^verbatim>\<open>repr\<close> of a string with no quote or escape in it, as the keys looked up here are.\<close>

definition repr_str :: "string \<Rightarrow> string" where
  "repr_str s = sq @ s @ sq"

text \<open>
  What \<^verbatim>\<open>row[...]\<close> can hold for a table read by \<^verbatim>\<open>pd.read_csv\<close>: text, the
  float \<^verbatim>\<open>nan\<close> of an empty cell, a Python \<^verbatim>\<open>int\<close> (an integer column seen
  through a row of mixed types) or a \<^verbatim>\<open>numpy.int64\<close> (a row of a table whose columns
  are all integers). Other floats are left out.
\<close>

datatype cell = Str string | NaN | PyInt int | NpInt64 int

fun str_cell :: "cell \<Rightarrow> string" where
  "str_cell (Str s) = s"
| "str_cell NaN = ''nan''"
| "str_cell (PyInt i) = str_int i"
| "str_cell (NpInt64 i) = str_int i"

type_synonym row = "string \<rightharpoonup> cell"

type_synonym dataframe = "row list"

text \<open>\<^verbatim>\<open>row[key]\<close> raises \<^verbatim>\<open>KeyError(key)\<close> when the table has no such column.\<close>

definition row_getitem :: "row \<Rightarrow> string \<Rightarrow> exn + cell" where
  "row_getitem r k = (case r k of None \<Rightarrow> Inl (Exn KeyError (repr_str k)) | Some v \<Rightarrow> Inr v)"

section \<open>The identifier suffix: \<^verbatim>\<open>str(uuid.uuid4())[:8]\<close>\<close>

text \<open>
  A UUID is a 128-bit integer; \<^verbatim>\<open>str\<close> prints it as 32 hexadecimal digits, most
  significant first, in groups of 8, 4, 4, 4 and 12 separated by hyphens.
\<close>

type_synonym uuid = "128 word"

primrec hex_digits :: "nat \<Rightarrow> nat \<Rightarrow> string" where
  "hex_digits 0 v = []"
| "hex_digits (Suc n) v = hex_digits n (v div 16) @ [digit_char (v mod 16)]"

definition str_uuid :: "uuid \<Rightarrow> string" where
  "str_uuid u = (let h = hex_digits 32 (unat u) in
     take 8 h @ ''-'' @ take 4 (drop 8 h) @ ''-'' @ take 4 (drop 12 h) @ ''-'' @
     take 4 (drop 16 h) @ ''-'' @ drop 20 h)"

section \<open>1. The schema of the structured output\<close>

text \<open>
  \<^verbatim>\<open>L_T_Output\<close> (lines 16-23): six fields; \<^verbatim>\<open>status\<close> and \<^verbatim>\<open>hardener_type\<close> are
  \<^verbatim>\<open>Literal\<close> types. The same record is the dictionary \<^verbatim>\<open>model_dump()\<close> returns.
  The field \<^verbatim>\<open>id\<close> is written \<open>id'\<close>.
\<close>

record L_T_Output =
  id' :: string
  truth_input :: string
  truth_history :: "string list"
  status :: string
  detail :: string
  hardener_type :: string

definition L_T_Output_validate :: "L_T_Output \<Rightarrow> exn + L_T_Output" where
  "L_T_Output_validate r =
     (if status r \<notin> set [''CONTRADICTION'', ''CONSEQUENCE'']
        then Inl (Exn ValidationError ''status'')
      else if hardener_type r \<notin> set [''PHYSICAL'', ''TEMPORAL'', ''SOCIAL'', ''OTHER'']
        then Inl (Exn ValidationError ''hardener_type'')
      else Inr r)"

definition model_dump :: "L_T_Output \<Rightarrow> L_T_Output" where
  "model_dump r = r"

section \<open>2. Environment setup\<close>

record config =
  AZURE_OPENAI_ENDPOINT :: string
  AZURE_OPENAI_KEY :: string
  AZURE_OPENAI_DEPLOYMENT :: string
  COSMOS_ENDPOINT :: string
  COSMOS_KEY :: string
  COSMOS_DATABASE_ID :: string
  COSMOS_CONTAINER_ID :: string

type_synonym environ = "string \<rightharpoonup> string"

definition environ_getitem :: "environ \<Rightarrow> string \<Rightarrow> exn + string" where
  "environ_getitem env k = (case env k of None \<Rightarrow> Inl (Exn KeyError (repr_str k)) | Some v \<Rightarrow> Inr v)"

definition environ_get :: "environ \<Rightarrow> string \<Rightarrow> string \<Rightarrow> string" where
  "environ_get env k d = (case env k of None \<Rightarrow> d | Some v \<Rightarrow> v)"

text \<open>The body of the \<^verbatim>\<open>try\<close> at lines 28-36, in the order of the source.\<close>

definition read_settings :: "environ \<Rightarrow> exn + config" where
  "read_settings env =
     (case environ_getitem env ''AZURE_OPENAI_ENDPOINT'' of Inl e \<Rightarrow> Inl e | Inr oe \<Rightarrow>
     (case environ_getitem env ''AZURE_OPENAI_KEY'' of Inl e \<Rightarrow> Inl e | Inr ok \<Rightarrow>
     (let od = environ_get env ''AZURE_OPENAI_DEPLOYMENT'' ''gpt4-logic'' in
     (case environ_getitem env ''COSMOS_ENDPOINT'' of Inl e \<Rightarrow> Inl e | Inr ce \<Rightarrow>
     (case environ_getitem env ''COSMOS_KEY'' of Inl e \<Rightarrow> Inl e | Inr ck \<Rightarrow>
     (case environ_getitem env ''COSMOS_DATABASE_ID'' of Inl e \<Rightarrow> Inl e | Inr cd \<Rightarrow>
     (case environ_getitem env ''COSMOS_CONTAINER_ID'' of Inl e \<Rightarrow> Inl e | Inr cc \<Rightarrow>
      Inr \<lparr>AZURE_OPENAI_ENDPOINT = oe, AZURE_OPENAI_KEY = ok, AZURE_OPENAI_DEPLOYMENT = od,
           COSMOS_ENDPOINT = ce, COSMOS_KEY = ck, COSMOS_DATABASE_ID = cd,
           COSMOS_CONTAINER_ID = cc\<rparr>)))))))"

text \<open>
  Lines 28-40: a \<^verbatim>\<open>KeyError\<close> of the body is replaced by an \<^verbatim>\<open>EnvironmentError\<close>,
  raised while the module is being loaded.
\<close>

definition module_setup :: "environ \<Rightarrow> exn + config" where
  "module_setup env =
     (case read_settings env of
        Inl e \<Rightarrow>
          if issubclass (cls e) KeyError
          then Inl (Exn EnvironmentError
                 (''Missing required Function App setting (Environment Variable): '' @ str_exn e))
          else Inl e
      | Inr c \<Rightarrow> Inr c)"

section \<open>3. The system prompt\<close>

definition ADVERSARY_SYSTEM_PROMPT :: string where
  "ADVERSARY_SYSTEM_PROMPT = nl @ concat (map (\<lambda>l. l @ nl)
    [''You are the **Adversary**, the ultimate arbiter of game logic for the '' @ L_equiv_T
       @ '' (Logic is Truth) system.'',
     '''',
     ''**CORE PRINCIPLES (The Universe's Immutable Laws):**'',
     ''1. **'' @ L_equiv_T
       @ '':** Every consequence must be a strictly logical deduction from the truth history.'',
     ''2. **Immutability:** Established truths in 'truth_history' are absolutely immutable.'',
     ''3. **Contradiction:** If the 'truth_input' breaks any core principle or contradicts 'truth_history', set 'status' to CONTRADICTION and explain the exact logical flaw in 'detail'.'',
     ''4. **Consequence:** If fully consistent, set 'status' to CONSEQUENCE and provide a single, immediate, logically binding consequence that hardens the new truth into reality.'',
     '''',
     ''**CORE GAME LORE (Initial Truths):**'',
     ''* The world is governed by the principle that Logic is Truth ('' @ L_equiv_T @ '').'',
     ''* The rejection of established origins by a character manifests as a fifth, powerful, and definitive statement of identity, becoming the persona's new, challenging origin story.'',
     ''* Magic is only possible where logic is incomplete or temporarily suspended.'',
     '''',
     ''**OUTPUT FORMAT:** You must only respond with a single JSON object that strictly adheres to the provided schema. Do not add any extra text, explanation, or markdown outside of the JSON block.''])"

section \<open>4. The simulation batch\<close>

subsection \<open>The outside world\<close>

text \<open>
  The value \<^verbatim>\<open>json.dumps\<close> serialises. The text of the serialisation is not modelled:
  a message carries the value itself.
\<close>

datatype json = JString string | JNumber int | JNaN | JArray "json list"
  | JObject "(string \<times> json) list"

text \<open>
  The arguments of \<^verbatim>\<open>chat.completions.create\<close> (lines 110-118): the deployment, the
  system message and the user message, which is \<^verbatim>\<open>INPUT: \<close> followed by the serialised
  payload. \<^verbatim>\<open>response_model\<close> is always \<^verbatim>\<open>L_T_Output\<close>; the temperature is a
  constant.
\<close>

record request =
  model :: string
  system_content :: string
  user_content_INPUT :: json

text \<open>
  What the libraries and the platform decide. The reply of the service, the failure of a
  write and the random identifier are given per row, by the position of the row in the
  table (each is asked for at most once per row).
  \<^item> \<open>CosmosClient_raises\<close>: the exception of lines 80-82, if any;
  \<^item> \<open>read_csv\<close>: \<^verbatim>\<open>pd.read_csv\<close>, the table or an exception;
  \<^item> \<open>AzureOpenAI_raises\<close>: the exception of lines 90-94, if any;
  \<^item> \<open>completion\<close>: what the call of lines 110-118 gives before the schema check, a
    six-field object whose two tags are still unchecked, or the exception the call raises
    (a keyword the client does not accept, the network, a malformed reply);
  \<^item> \<open>upsert_raises\<close>: the exception of \<^verbatim>\<open>container.upsert_item\<close>, if any; a write that
    raises stores nothing;
  \<^item> \<open>uuid4\<close>: the value of \<^verbatim>\<open>uuid.uuid4()\<close>.
\<close>

record ext =
  CosmosClient_raises :: "exn option"
  read_csv :: "string \<Rightarrow> exn + dataframe"
  AzureOpenAI_raises :: "exn option"
  completion :: "nat \<Rightarrow> request \<Rightarrow> exn + L_T_Output"
  upsert_raises :: "nat \<Rightarrow> L_T_Output \<Rightarrow> exn option"
  uuid4 :: "nat \<Rightarrow> uuid"

datatype level = INFO | ERROR

text \<open>
  The observable effects, in order: the log lines, the calls of
  \<^verbatim>\<open>chat.completions.create\<close> by their arguments (a call is recorded whether it
  returns or raises), the items passed to successful \<^verbatim>\<open>upsert_item\<close> calls.
\<close>

record world =
  logs :: "(level \<times> string) list"
  requests :: "request list"
  upserts :: "L_T_Output list"

definition world0 :: world where
  "world0 = \<lparr>logs = [], requests = [], upserts = []\<rparr>"

definition logging_info :: "string \<Rightarrow> world \<Rightarrow> world" where
  "logging_info m w = w\<lparr>logs := logs w @ [(INFO, m)]\<rparr>"

definition logging_error :: "string \<Rightarrow> world \<Rightarrow> world" where
  "logging_error m w = w\<lparr>logs := logs w @ [(ERROR, m)]\<rparr>"

subsection \<open>The body of the loop\<close>

definition INITIAL_HISTORY :: "string list" where
  "INITIAL_HISTORY =
    [''The world is governed by the principle that Logic is Truth ('' @ L_equiv_T @ '').'',
     ''All established facts are immutable until logically proven otherwise.'',
     ''A character's identity is fundamentally linked to their accepted or rejected origin story.'']"

text \<open>Line 100.\<close>

definition current_history :: "cell \<Rightarrow> string list" where
  "current_history category =
     INITIAL_HISTORY @ [''The current game context is focused on the '' @ sq
                        @ str_cell category @ sq @ '' domain.'']"

text \<open>
  \<^verbatim>\<open>json.dumps\<close> of a cell: text, \<^verbatim>\<open>nan\<close> and a Python \<^verbatim>\<open>int\<close> are serialisable,
  a \<^verbatim>\<open>numpy.int64\<close> is not.
\<close>

fun json_of_cell :: "cell \<Rightarrow> exn + json" where
  "json_of_cell (Str s) = Inr (JString s)"
| "json_of_cell NaN = Inr JNaN"
| "json_of_cell (PyInt i) = Inr (JNumber i)"
| "json_of_cell (NpInt64 i) = Inl (Exn TypeError ''Object of type int64 is not JSON serializable'')"

text \<open>Lines 103-106.\<close>

definition json_dumps_payload :: "cell \<Rightarrow> string list \<Rightarrow> exn + json" where
  "json_dumps_payload ti history =
     (case json_of_cell ti of
        Inl e \<Rightarrow> Inl e
      | Inr j \<Rightarrow> Inr (JObject [(''truth_input'', j),
                              (''truth_history'', JArray (map JString history))]))"

text \<open>
  Lines 110-118. What the client does with the call is not code of this program: it is the
  parameter \<open>completion\<close>. The program asks for an instance of \<^verbatim>\<open>L_T_Output\<close> with the
  keyword \<^verbatim>\<open>response_model\<close>. With a client that takes the keyword, a reply that violates
  the schema raises inside the call. The client that line 90 constructs,
  \<^verbatim>\<open>openai.AzureOpenAI\<close> as the package named in line 9 provides it, has no such keyword:
  with it the call raises \<^verbatim>\<open>TypeError\<close> for every row, which is the instance
  \<open>x_openai\<close> of the examples.
\<close>

definition create :: "ext \<Rightarrow> nat \<Rightarrow> request \<Rightarrow> exn + L_T_Output" where
  "create x index req =
     (case completion x index req of
        Inl e \<Rightarrow> Inl e
      | Inr reply \<Rightarrow> L_T_Output_validate reply)"

definition new_id :: "cell \<Rightarrow> uuid \<Rightarrow> string" where
  "new_id rid u = str_cell rid @ ''-'' @ take 8 (str_uuid u)"

text \<open>The arguments of the call, lines 110-118.\<close>

definition chat_request :: "config \<Rightarrow> json \<Rightarrow> request" where
  "chat_request cfg user_message =
     \<lparr>model = AZURE_OPENAI_DEPLOYMENT cfg,
      system_content = ADVERSARY_SYSTEM_PROMPT,
      user_content_INPUT = user_message\<rparr>"

text \<open>Lines 121-124: the dictionary of the response, with its \<^verbatim>\<open>id\<close> replaced.\<close>

definition stored_item :: "cell \<Rightarrow> uuid \<Rightarrow> L_T_Output \<Rightarrow> L_T_Output" where
  "stored_item rid u response = (model_dump response)\<lparr>id' := new_id rid u\<rparr>"

text \<open>The log lines of lines 129 and 133.\<close>

definition processed_message :: "cell \<Rightarrow> cell \<Rightarrow> string \<Rightarrow> string" where
  "processed_message rid title st =
     ''Processed Case '' @ str_cell rid @ '' ('' @ str_cell title @ '') -> Status: '' @ st"

definition critical_error_message :: "cell \<Rightarrow> cell \<Rightarrow> exn \<Rightarrow> string" where
  "critical_error_message rid ti e =
     ''!!! CRITICAL ERROR processing Case '' @ str_cell rid @ '' ('' @ sq @ str_cell ti @ sq
     @ ''): '' @ str_exn e"

text \<open>The body of the \<^verbatim>\<open>try\<close>, lines 109-129.\<close>

definition try_body :: "config \<Rightarrow> ext \<Rightarrow> nat \<Rightarrow> row \<Rightarrow> json \<Rightarrow> world \<Rightarrow> (exn + unit) \<times> world" where
  "try_body cfg x index r user_message w =
     (let req = chat_request cfg user_message;
          w1 = w\<lparr>requests := requests w @ [req]\<rparr>
      in (case create x index req of
            Inl e \<Rightarrow> (Inl e, w1)
          | Inr response \<Rightarrow>
         (case row_getitem r ''ID'' of
            Inl e \<Rightarrow> (Inl e, w1)
          | Inr rid \<Rightarrow>
         (let result_dict = stored_item rid (uuid4 x index) response
          in (case upsert_raises x index result_dict of
                Some e \<Rightarrow> (Inl e, w1)
              | None \<Rightarrow>
             (let w2 = w1\<lparr>upserts := upserts w1 @ [result_dict]\<rparr>
              in (case row_getitem r ''Summary Title'' of
                    Inl e \<Rightarrow> (Inl e, w2)
                  | Inr title \<Rightarrow>
                      (Inr (), logging_info
                                 (processed_message rid title (status result_dict)) w2))))))))"

text \<open>The handler, line 133; the lookup of \<^verbatim>\<open>row['ID']\<close> in it can raise again.\<close>

definition except_handler :: "row \<Rightarrow> cell \<Rightarrow> exn \<Rightarrow> world \<Rightarrow> (exn + unit) \<times> world" where
  "except_handler r ti e w =
     (case row_getitem r ''ID'' of
        Inl e' \<Rightarrow> (Inl e', w)
      | Inr rid \<Rightarrow> (Inr (), logging_error (critical_error_message rid ti e) w))"

text \<open>One iteration, lines 97-133.\<close>

definition process_row :: "config \<Rightarrow> ext \<Rightarrow> nat \<Rightarrow> row \<Rightarrow> world \<Rightarrow> (exn + unit) \<times> world" where
  "process_row cfg x index r w =
     (case row_getitem r ''Full Victory Condition Statement'' of
        Inl e \<Rightarrow> (Inl e, w)
      | Inr ti \<Rightarrow>
     (case row_getitem r ''Category'' of
        Inl e \<Rightarrow> (Inl e, w)
      | Inr category \<Rightarrow>
     (case json_dumps_payload ti (current_history category) of
        Inl e \<Rightarrow> (Inl e, w)
      | Inr user_message \<Rightarrow>
     (case try_body cfg x index r user_message w of
        (Inl e, w') \<Rightarrow> except_handler r ti e w'
      | (Inr u, w') \<Rightarrow> (Inr (), w')))))"

text \<open>The loop of line 96 over the rows, in the order of the file.\<close>

fun iterrows_loop :: "config \<Rightarrow> ext \<Rightarrow> nat \<Rightarrow> dataframe \<Rightarrow> world \<Rightarrow> (exn + unit) \<times> world" where
  "iterrows_loop cfg x index [] w = (Inr (), w)"
| "iterrows_loop cfg x index (r # rs) w =
     (case process_row cfg x index r w of
        (Inl e, w') \<Rightarrow> (Inl e, w')
      | (Inr u, w') \<Rightarrow> iterrows_loop cfg x (Suc index) rs w')"

subsection \<open>The batch and the entry point\<close>

definition run_simulation_batch :: "config \<Rightarrow> ext \<Rightarrow> string \<Rightarrow> world \<Rightarrow> (exn + unit) \<times> world" where
  "run_simulation_batch cfg x csv_file_path w =
     (case CosmosClient_raises x of
        Some e \<Rightarrow> (Inl e, w)
      | None \<Rightarrow>
     (case read_csv x csv_file_path of
        Inl e \<Rightarrow> (Inl e, w)
      | Inr df \<Rightarrow>
     (let w1 = logging_info (''Starting '' @ L_equiv_T @ '' simulation for ''
                 @ str_nat (length df) @ '' cases found in '' @ csv_file_path @ ''.'') w
      in (case AzureOpenAI_raises x of
            Some e \<Rightarrow> (Inl e, w1)
          | None \<Rightarrow>
         (case iterrows_loop cfg x 0 df w1 of
            (Inl e, w2) \<Rightarrow> (Inl e, w2)
          | (Inr u, w2) \<Rightarrow>
              (Inr (), logging_info (check_mark
                         @ '' Mass Simulation Complete. All data processing finished.'') w2))))))"

record HttpResponse =
  body :: string
  status_code :: nat

text \<open>
  Lines 142-169. The first handler takes every instance of \<^verbatim>\<open>EnvironmentError\<close>, that
  is of \<^verbatim>\<open>OSError\<close> and its subclasses; the second takes the rest.
\<close>

definition http_trigger_function :: "config \<Rightarrow> ext \<Rightarrow> world \<Rightarrow> HttpResponse \<times> world" where
  "http_trigger_function cfg x w =
     (let w0 = logging_info ''Python HTTP trigger function (SimulateL_T) received a request.'' w
      in case run_simulation_batch cfg x ''victory.csv'' w0 of
           (Inr u, w1) \<Rightarrow>
             (\<lparr>body = L_equiv_T @ '' Mass Simulation Started and Completed Successfully. Data is in Cosmos DB. Check Azure Function Logs for batch status.'',
               status_code = 200\<rparr>, w1)
         | (Inl e, w1) \<Rightarrow>
             if issubclass (cls e) EnvironmentError
             then (\<lparr>body = ''Deployment FAILED due to missing environment variable. Check Application Settings. Error: '' @ str_exn e,
                     status_code = 500\<rparr>,
                   logging_error (''Configuration Error: '' @ str_exn e) w1)
             else (\<lparr>body = ''Simulation failed during execution. Check Function Logs. Error: '' @ str_exn e,
                     status_code = 500\<rparr>,
                   logging_error (''RUNTIME FAILED. Check logs for details. Error: '' @ str_exn e) w1))"

text \<open>
  The module as the platform runs it: the settings are read when the module is loaded,
  before \<^verbatim>\<open>http_trigger_function\<close> is defined. If that raises, the module has no entry
  point and the program builds no response; otherwise a request runs the entry point.
\<close>

datatype outcome = ImportFailed exn | Responded HttpResponse

definition function_app :: "environ \<Rightarrow> ext \<Rightarrow> world \<Rightarrow> outcome \<times> world" where
  "function_app env x w =
     (case module_setup env of
        Inl e \<Rightarrow> (ImportFailed e, w)
      | Inr cfg \<Rightarrow>
          (case http_trigger_function cfg x w of (resp, w') \<Rightarrow> (Responded resp, w')))"

section \<open>Auxiliary notions\<close>


text \<open>
  The effects of a computation run after another: the traces are appended. Every function
  of the batch only appends to the traces, so what it adds does not depend on what is
  already there.
\<close>

definition world_append :: "world \<Rightarrow> world \<Rightarrow> world" where
  "world_append w d = \<lparr>logs = logs w @ logs d, requests = requests w @ requests d,
                        upserts = upserts w @ upserts d\<rparr>"

definition world_concat :: "world list \<Rightarrow> world" where
  "world_concat ws = foldr world_append ws world0"

section \<open>Example inputs\<close>

definition cfg0 :: config where
  "cfg0 = \<lparr>AZURE_OPENAI_ENDPOINT = ''https://example.openai.azure.com/'',
           AZURE_OPENAI_KEY = ''key-1'',
           AZURE_OPENAI_DEPLOYMENT = ''gpt4-logic'',
           COSMOS_ENDPOINT = ''https://example.documents.azure.com:443/'',
           COSMOS_KEY = ''key-2'',
           COSMOS_DATABASE_ID = ''lt-db'',
           COSMOS_CONTAINER_ID = ''verdicts''\<rparr>"

definition row_V007 :: row where
  "row_V007 = map_of
     [(''ID'', Str ''V007''), (''Category'', Str ''Combat''),
      (''Full Victory Condition Statement'', Str ''I cannot be harmed by steel.''),
      (''Summary Title'', Str ''Steel Immunity'')]"

definition row_V008 :: row where
  "row_V008 = map_of
     [(''ID'', Str ''V008''), (''Category'', Str ''Magic''),
      (''Full Victory Condition Statement'', Str ''I can cast any spell at no cost.''),
      (''Summary Title'', Str ''Free Magic'')]"

text \<open>A reply that repeats the statement and the history of the V007 request.\<close>

definition reply_V007 :: L_T_Output where
  "reply_V007 =
     \<lparr>id' = ''c0ffee00-0000-4000-8000-000000000001'',
      truth_input = ''I cannot be harmed by steel.'',
      truth_history = current_history (Str ''Combat''),
      status = ''CONSEQUENCE'',
      detail = ''Steel passes through you, and you can no longer hold it.'',
      hardener_type = ''PHYSICAL''\<rparr>"

text \<open>A reply that rewords the statement and drops the history.\<close>

definition reply_reworded :: L_T_Output where
  "reply_reworded =
     \<lparr>id' = ''c0ffee00-0000-4000-8000-000000000002'',
      truth_input = ''Steel cannot harm me.'',
      truth_history = [],
      status = ''CONSEQUENCE'',
      detail = ''Steel passes through you, and you can no longer hold it.'',
      hardener_type = ''PHYSICAL''\<rparr>"

text \<open>A reply whose outcome tag is not one of the two literals.\<close>

definition reply_bad_status :: L_T_Output where
  "reply_bad_status = reply_V007\<lparr>status := ''UNDECIDED''\<rparr>"

text \<open>The payload built for the V007 row.\<close>

definition payload_V007 :: json where
  "payload_V007 = JObject [(''truth_input'', JString ''I cannot be harmed by steel.''),
                           (''truth_history'', JArray (map JString (current_history (Str ''Combat''))))]"

text \<open>The payload built for the V008 row.\<close>

definition payload_V008 :: json where
  "payload_V008 = JObject [(''truth_input'', JString ''I can cast any spell at no cost.''),
                           (''truth_history'', JArray (map JString (current_history (Str ''Magic''))))]"

text \<open>
  A world in which everything works: the file holds the V007 row, the service answers
  \<open>reply_V007\<close>, writes succeed, and the random identifiers of rows 0 and 1 start with
  different digits.
\<close>

definition x_ok :: ext where
  "x_ok = \<lparr>CosmosClient_raises = None,
           read_csv = (\<lambda>p. Inr [row_V007]),
           AzureOpenAI_raises = None,
           completion = (\<lambda>i req. Inr reply_V007),
           upsert_raises = (\<lambda>i d. None),
           uuid4 = (\<lambda>i. if i = 0 then 0x9f1c2ab45e6d4f708a91b2c3d4e5f607
                         else 0x41d07e3ad2c14b5e9c0f6a7b8c9d0e1f)\<rparr>"

text \<open>Three rows; the call fails for row 1 and the write fails for row 2.\<close>

definition df3 :: dataframe where
  "df3 = [row_V007, row_V008, row_V007]"

definition x_flaky :: ext where
  "x_flaky = x_ok\<lparr>read_csv := (\<lambda>p. Inr df3),
                  completion := (\<lambda>i req. if i = 1 then Inl (Exn LibraryError ''Connection error.'')
                                          else Inr reply_V007),
                  upsert_raises := (\<lambda>i d. if i = 2 then Some (Exn LibraryError ''Service unavailable'')
                                           else None)\<rparr>"


text \<open>
  The client of line 90 as the \<^verbatim>\<open>openai\<close> package provides it: \<^verbatim>\<open>create\<close> has no
  parameter \<^verbatim>\<open>response_model\<close>, so the call of lines 110-118 raises before anything is
  sent. Everything else works as in \<open>x_ok\<close>.
\<close>

definition response_model_TypeError :: exn where
  "response_model_TypeError =
     Exn TypeError (''Completions.create() got an unexpected keyword argument '' @ sq
                    @ ''response_model'' @ sq)"

definition x_openai :: ext where
  "x_openai = x_ok\<lparr>completion := (\<lambda>i req. Inl response_model_TypeError)\<rparr>"

definition x_reworded :: ext where
  "x_reworded = x_ok\<lparr>completion := (\<lambda>i req. Inr reply_reworded)\<rparr>"

definition x_bad_status :: ext where
  "x_bad_status = x_ok\<lparr>completion := (\<lambda>i req. Inr reply_bad_status)\<rparr>"

definition x_no_file :: ext where
  "x_no_file = x_ok\<lparr>read_csv := (\<lambda>p. Inl (Exn FileNotFoundError
                  (''[Errno 2] No such file or directory: '' @ repr_str p)))\<rparr>"

definition x_empty_file :: ext where
  "x_empty_file = x_ok\<lparr>read_csv := (\<lambda>p. Inr [])\<rparr>"

text \<open>The settings with \<^verbatim>\<open>COSMOS_KEY\<close> missing.\<close>

definition environ_no_COSMOS_KEY :: environ where
  "environ_no_COSMOS_KEY = map_of
     [(''AZURE_OPENAI_ENDPOINT'', ''https://example.openai.azure.com/''),
      (''AZURE_OPENAI_KEY'', ''key-1''),
      (''COSMOS_ENDPOINT'', ''https://example.documents.azure.com:443/''),
      (''COSMOS_DATABASE_ID'', ''lt-db''),
      (''COSMOS_CONTAINER_ID'', ''verdicts'')]"

section \<open>What one row adds, and what the loop adds\<close>

lemma world_append_sel [simp]:
  "logs (world_append w d) = logs w @ logs d"
  "requests (world_append w d) = requests w @ requests d"
  "upserts (world_append w d) = upserts w @ upserts d"
  by (simp_all add: world_append_def)

lemma world_append_world0 [simp]: "world_append w world0 = w" "world_append world0 w = w"
  by (simp_all add: world_append_def world0_def)

lemma world_append_assoc: "world_append (world_append a b) c = world_append a (world_append b c)"
  by (simp add: world_append_def)

lemma try_body_frame:
  "try_body cfg x i r um w =
     (fst (try_body cfg x i r um world0), world_append w (snd (try_body cfg x i r um world0)))"
  by (simp add: try_body_def Let_def world_append_def world0_def logging_info_def
           split: sum.splits option.splits)

lemma except_handler_frame:
  "except_handler r ti e w =
     (fst (except_handler r ti e world0), world_append w (snd (except_handler r ti e world0)))"
  by (simp add: except_handler_def world_append_def world0_def logging_error_def
           split: sum.splits)

lemma try_handler_frame:
  "(case try_body cfg x i r um w of
      (Inl e, w') \<Rightarrow> except_handler r ti e w'
    | (Inr u, w') \<Rightarrow> (Inr (), w')) =
   (fst (case try_body cfg x i r um world0 of
           (Inl e, w') \<Rightarrow> except_handler r ti e w'
         | (Inr u, w') \<Rightarrow> (Inr (), w')),
    world_append w (snd (case try_body cfg x i r um world0 of
           (Inl e, w') \<Rightarrow> except_handler r ti e w'
         | (Inr u, w') \<Rightarrow> (Inr (), w'))))"
proof (cases "try_body cfg x i r um world0")
  case (Pair a d)
  have tw: "try_body cfg x i r um w = (a, world_append w d)"
    using try_body_frame [of cfg x i r um w] Pair by simp
  show ?thesis
  proof (cases a)
    case (Inl e)
    have "except_handler r ti e (world_append w d)
            = (fst (except_handler r ti e world0),
               world_append (world_append w d) (snd (except_handler r ti e world0)))"
      by (rule except_handler_frame)
    moreover have "except_handler r ti e d
            = (fst (except_handler r ti e world0),
               world_append d (snd (except_handler r ti e world0)))"
      by (rule except_handler_frame)
    ultimately show ?thesis
      using Pair tw Inl by (simp add: world_append_assoc)
  next
    case (Inr u)
    then show ?thesis using Pair tw by simp
  qed
qed

lemma process_row_frame:
  "process_row cfg x i r w =
     (fst (process_row cfg x i r world0), world_append w (snd (process_row cfg x i r world0)))"
  unfolding process_row_def
  by (simp add: try_handler_frame [where w = w] split: sum.splits)

lemma iterrows_loop_frame:
  "iterrows_loop cfg x i df w =
     (fst (iterrows_loop cfg x i df world0),
      world_append w (snd (iterrows_loop cfg x i df world0)))"
proof (induction df arbitrary: i w)
  case Nil
  show ?case by simp
next
  case (Cons r rs)
  obtain a d where p0: "process_row cfg x i r world0 = (a, d)"
    by (cases "process_row cfg x i r world0")
  have pw: "process_row cfg x i r w = (a, world_append w d)"
    using process_row_frame [of cfg x i r w] p0 by simp
  show ?case
  proof (cases a)
    case (Inl e)
    then show ?thesis using p0 pw by simp
  next
    case (Inr u)
    have "iterrows_loop cfg x (Suc i) rs (world_append w d)
           = (fst (iterrows_loop cfg x (Suc i) rs world0),
              world_append (world_append w d) (snd (iterrows_loop cfg x (Suc i) rs world0)))"
      by (rule Cons.IH)
    moreover have "iterrows_loop cfg x (Suc i) rs d
           = (fst (iterrows_loop cfg x (Suc i) rs world0),
              world_append d (snd (iterrows_loop cfg x (Suc i) rs world0)))"
      by (rule Cons.IH)
    ultimately show ?thesis using p0 pw Inr by (simp add: world_append_assoc)
  qed
qed


lemma world_concat_simps [simp]:
  "world_concat [] = world0"
  "world_concat (d # ds) = world_append d (world_concat ds)"
  by (simp_all add: world_concat_def)

lemma world0_sel [simp]: "logs world0 = []" "requests world0 = []" "upserts world0 = []"
  by (simp_all add: world0_def)


lemma create_Inr_iff:
  "create x i req = Inr resp \<longleftrightarrow>
     completion x i req = Inr resp
     \<and> status resp \<in> set [''CONTRADICTION'', ''CONSEQUENCE'']
     \<and> hardener_type resp \<in> set [''PHYSICAL'', ''TEMPORAL'', ''SOCIAL'', ''OTHER'']"
  by (auto simp: create_def L_T_Output_validate_def split: sum.splits if_splits)

lemma process_row_valid:
  assumes "r ''ID'' = Some rid" and "r ''Full Victory Condition Statement'' = Some ti"
    and "r ''Category'' = Some c" and "r ''Summary Title'' = Some t"
    and "json_dumps_payload ti (current_history c) = Inr um"
  shows "process_row cfg x i r world0 =
    (Inr (),
     (case create x i (chat_request cfg um) of
        Inl e \<Rightarrow> \<lparr>logs = [(ERROR, critical_error_message rid ti e)],
                  requests = [chat_request cfg um], upserts = []\<rparr>
      | Inr resp \<Rightarrow>
         (case upsert_raises x i (stored_item rid (uuid4 x i) resp) of
            Some e \<Rightarrow> \<lparr>logs = [(ERROR, critical_error_message rid ti e)],
                       requests = [chat_request cfg um], upserts = []\<rparr>
          | None \<Rightarrow> \<lparr>logs = [(INFO, processed_message rid t
                                    (status (stored_item rid (uuid4 x i) resp)))],
                     requests = [chat_request cfg um],
                     upserts = [stored_item rid (uuid4 x i) resp]\<rparr>)))"
  using assms
  by (simp add: process_row_def try_body_def except_handler_def row_getitem_def Let_def
        world0_def logging_info_def logging_error_def split: sum.splits option.splits)



lemma process_row_upserts_sub:
  assumes "d \<in> set (upserts (snd (process_row cfg x i r world0)))"
  shows "\<exists>ti c um rid resp. r ''Full Victory Condition Statement'' = Some ti
           \<and> r ''Category'' = Some c
           \<and> json_dumps_payload ti (current_history c) = Inr um
           \<and> r ''ID'' = Some rid
           \<and> create x i (chat_request cfg um) = Inr resp
           \<and> upsert_raises x i (stored_item rid (uuid4 x i) resp) = None
           \<and> d = stored_item rid (uuid4 x i) resp"
  using assms
  by (auto simp: process_row_def try_body_def except_handler_def row_getitem_def Let_def
        world0_def logging_info_def logging_error_def split: sum.splits option.splits)

lemma iterrows_loop_Cons0:
  "iterrows_loop cfg x k (r # rs) world0 =
     (case fst (process_row cfg x k r world0) of
        Inl e \<Rightarrow> (Inl e, snd (process_row cfg x k r world0))
      | Inr u \<Rightarrow> (fst (iterrows_loop cfg x (Suc k) rs world0),
                  world_append (snd (process_row cfg x k r world0))
                               (snd (iterrows_loop cfg x (Suc k) rs world0))))"
proof (cases "process_row cfg x k r world0")
  case (Pair a d)
  show ?thesis
  proof (cases a)
    case (Inl e)
    then show ?thesis using Pair by simp
  next
    case (Inr u)
    then show ?thesis
      using Pair iterrows_loop_frame [of cfg x "Suc k" rs d] by simp
  qed
qed

lemma iterrows_loop_upserts_sub:
  "set (upserts (snd (iterrows_loop cfg x k df world0)))
     \<subseteq> (\<Union>(j, r)\<in>set (enumerate k df). set (upserts (snd (process_row cfg x j r world0))))"
proof (induction df arbitrary: k)
  case Nil
  show ?case by simp
next
  case (Cons r rs)
  show ?case
    using Cons.IH [of "Suc k"]
    by (auto simp: iterrows_loop_Cons0 simp del: iterrows_loop.simps split: sum.splits)
qed



lemma length_hex_digits [simp]: "length (hex_digits n v) = n"
  by (induction n arbitrary: v) simp_all

lemma length_suffix [simp]: "length (take 8 (str_uuid u)) = 8"
  by (simp add: str_uuid_def Let_def)

lemma length_INITIAL_HISTORY [simp]: "length INITIAL_HISTORY = 3"
  by (simp add: INITIAL_HISTORY_def)

lemma length_str_uuid [simp]: "length (str_uuid u) = 36"
  by (simp add: str_uuid_def Let_def)

lemma length_current_history [simp]: "length (current_history c) = 4"
  by (simp add: current_history_def)









lemmas x_defs = x_ok_def x_no_file_def x_empty_file_def x_flaky_def x_openai_def
  x_reworded_def x_bad_status_def

section \<open>Facts about the example inputs\<close>

lemma row_V007_cols:
  "row_V007 ''ID'' = Some (Str ''V007'')"
  "row_V007 ''Full Victory Condition Statement'' = Some (Str ''I cannot be harmed by steel.'')"
  "row_V007 ''Category'' = Some (Str ''Combat'')"
  "row_V007 ''Summary Title'' = Some (Str ''Steel Immunity'')"
  by (simp_all add: row_V007_def)

lemma payload_V007:
  "json_dumps_payload (Str ''I cannot be harmed by steel.'') (current_history (Str ''Combat''))
     = Inr payload_V007"
  by (simp add: json_dumps_payload_def payload_V007_def)

lemma iterrows_loop_V007:
  "iterrows_loop cfg0 x_ok 0 [row_V007] world0 =
     (Inr (), \<lparr>logs = [(INFO, processed_message (Str ''V007'') (Str ''Steel Immunity'')
                  (status (stored_item (Str ''V007'') (uuid4 x_ok 0) reply_V007)))],
               requests = [chat_request cfg0 payload_V007],
               upserts = [stored_item (Str ''V007'') (uuid4 x_ok 0) reply_V007]\<rparr>)"
proof -
  have c: "create x_ok 0 (chat_request cfg0 payload_V007) = Inr reply_V007"
    by (simp add: create_Inr_iff x_defs reply_V007_def)
  have u: "upsert_raises x_ok 0 d = None" for d
    by (simp add: x_defs)
  have "process_row cfg0 x_ok 0 row_V007 world0 =
     (Inr (), \<lparr>logs = [(INFO, processed_message (Str ''V007'') (Str ''Steel Immunity'')
                  (status (stored_item (Str ''V007'') (uuid4 x_ok 0) reply_V007)))],
               requests = [chat_request cfg0 payload_V007],
               upserts = [stored_item (Str ''V007'') (uuid4 x_ok 0) reply_V007]\<rparr>)"
    using process_row_valid [OF row_V007_cols(1,2,3,4) payload_V007, of cfg0 x_ok 0]
    by (simp add: c u)
  then show ?thesis by simp
qed

lemma row_V008_cols:
  "row_V008 ''ID'' = Some (Str ''V008'')"
  "row_V008 ''Full Victory Condition Statement'' = Some (Str ''I can cast any spell at no cost.'')"
  "row_V008 ''Category'' = Some (Str ''Magic'')"
  "row_V008 ''Summary Title'' = Some (Str ''Free Magic'')"
  by (simp_all add: row_V008_def)

lemma payload_V008:
  "json_dumps_payload (Str ''I can cast any spell at no cost.'') (current_history (Str ''Magic''))
     = Inr payload_V008"
  by (simp add: json_dumps_payload_def payload_V008_def)


lemma process_row_x_openai:
  assumes "r ''ID'' = Some rid" and "r ''Full Victory Condition Statement'' = Some ti"
    and "r ''Category'' = Some c" and "r ''Summary Title'' = Some t"
    and "json_dumps_payload ti (current_history c) = Inr um"
  shows "process_row cfg x_openai i r w =
     (Inr (), w\<lparr>logs := logs w @ [(ERROR, critical_error_message rid ti response_model_TypeError)],
                 requests := requests w @ [chat_request cfg um]\<rparr>)"
proof -
  have c: "create x_openai i req = Inl response_model_TypeError" for req
    by (simp add: create_def x_openai_def)
  show ?thesis
    using process_row_frame [of cfg x_openai i r w] process_row_valid [OF assms, of cfg x_openai i]
    by (simp add: c world_append_def)
qed

section \<open>One row\<close>

text \<open>
  C5. For a row with its columns, whose request is answered by a reply carrying an outcome
  tag outside \<^verbatim>\<open>CONTRADICTION\<close>, \<^verbatim>\<open>CONSEQUENCE\<close> or a classification tag outside
  \<^verbatim>\<open>PHYSICAL\<close>, \<^verbatim>\<open>TEMPORAL\<close>, \<^verbatim>\<open>SOCIAL\<close>, \<^verbatim>\<open>OTHER\<close>: the row is a failure. The
  iteration ends normally, nothing is written to storage, and one error line with the case
  identifier, the statement and the validation error is logged.
\<close>

theorem invalid_tag_is_row_failure:
  assumes "r ''ID'' = Some rid" and "r ''Full Victory Condition Statement'' = Some ti"
    and "r ''Category'' = Some c"
    and "json_dumps_payload ti (current_history c) = Inr um"
    and "completion x i (chat_request cfg um) = Inr reply"
    and "status reply \<notin> set [''CONTRADICTION'', ''CONSEQUENCE'']
         \<or> hardener_type reply \<notin> set [''PHYSICAL'', ''TEMPORAL'', ''SOCIAL'', ''OTHER'']"
  shows "fst (process_row cfg x i r w) = Inr ()
       \<and> upserts (snd (process_row cfg x i r w)) = upserts w
       \<and> (\<exists>e. cls e = ValidationError
              \<and> logs (snd (process_row cfg x i r w))
                  = logs w @ [(ERROR, critical_error_message rid ti e)])"
proof -
  have "\<exists>e. create x i (chat_request cfg um) = Inl e \<and> cls e = ValidationError"
    using assms(5,6) by (auto simp: create_def L_T_Output_validate_def)
  then obtain e where e: "create x i (chat_request cfg um) = Inl e" "cls e = ValidationError"
    by blast
  have "process_row cfg x i r w =
          (Inr (), w\<lparr>requests := requests w @ [chat_request cfg um],
                     logs := logs w @ [(ERROR, critical_error_message rid ti e)]\<rparr>)"
    using assms(1-4) e(1)
    by (simp add: process_row_def try_body_def except_handler_def row_getitem_def Let_def
          logging_error_def)
  then show ?thesis using e(2) by auto
qed

theorem invalid_tag_is_row_failure_witness:
  "row_V007 ''ID'' = Some (Str ''V007'')
   \<and> row_V007 ''Full Victory Condition Statement'' = Some (Str ''I cannot be harmed by steel.'')
   \<and> row_V007 ''Category'' = Some (Str ''Combat'')
   \<and> json_dumps_payload (Str ''I cannot be harmed by steel.'') (current_history (Str ''Combat''))
       = Inr payload_V007
   \<and> completion x_bad_status 0 (chat_request cfg0 payload_V007) = Inr reply_bad_status
   \<and> status reply_bad_status = ''UNDECIDED''
   \<and> fst (process_row cfg0 x_bad_status 0 row_V007 world0) = Inr ()
   \<and> upserts (snd (process_row cfg0 x_bad_status 0 row_V007 world0)) = []
   \<and> (\<exists>e. cls e = ValidationError
          \<and> logs (snd (process_row cfg0 x_bad_status 0 row_V007 world0))
              = [(ERROR, critical_error_message (Str ''V007'')
                           (Str ''I cannot be harmed by steel.'') e)])"
proof -
  have c: "completion x_bad_status 0 (chat_request cfg0 payload_V007) = Inr reply_bad_status"
    by (simp add: x_defs)
  have s: "status reply_bad_status = ''UNDECIDED''"
    by (simp add: reply_bad_status_def)
  have t: "status reply_bad_status \<notin> set [''CONTRADICTION'', ''CONSEQUENCE'']
         \<or> hardener_type reply_bad_status \<notin> set [''PHYSICAL'', ''TEMPORAL'', ''SOCIAL'', ''OTHER'']"
    by (simp add: s)
  show ?thesis
    using invalid_tag_is_row_failure [OF row_V007_cols(1-3) payload_V007 c t, of world0]
      row_V007_cols payload_V007 c s
    by simp
qed

text \<open>
  C9. For a row that is processed successfully, the item written is the reply of the
  service with \<^verbatim>\<open>id\<close> replaced and the five other fields as the service returned them.
  Nothing is assumed about \<^verbatim>\<open>truth_input\<close> and \<^verbatim>\<open>truth_history\<close> of the reply: they are
  not compared with what was sent.
\<close>

theorem only_id_replaced:
  assumes "r ''ID'' = Some rid" and "r ''Full Victory Condition Statement'' = Some ti"
    and "r ''Category'' = Some c"
    and "json_dumps_payload ti (current_history c) = Inr um"
    and "completion x i (chat_request cfg um) = Inr reply"
    and "status reply \<in> set [''CONTRADICTION'', ''CONSEQUENCE'']"
    and "hardener_type reply \<in> set [''PHYSICAL'', ''TEMPORAL'', ''SOCIAL'', ''OTHER'']"
    and "upsert_raises x i (reply\<lparr>id' := new_id rid (uuid4 x i)\<rparr>) = None"
  shows "\<exists>d. upserts (snd (process_row cfg x i r w)) = upserts w @ [d]
            \<and> d = reply\<lparr>id' := new_id rid (uuid4 x i)\<rparr>
            \<and> truth_input d = truth_input reply \<and> truth_history d = truth_history reply
            \<and> status d = status reply \<and> detail d = detail reply
            \<and> hardener_type d = hardener_type reply"
proof -
  have c: "create x i (chat_request cfg um) = Inr reply"
    using assms(5-7) by (simp add: create_Inr_iff)
  have "upserts (snd (process_row cfg x i r w)) = upserts w @ [reply\<lparr>id' := new_id rid (uuid4 x i)\<rparr>]"
    using assms(1-4,8) c
    by (simp add: process_row_def try_body_def except_handler_def row_getitem_def Let_def
          logging_error_def logging_info_def stored_item_def model_dump_def
          split: option.splits)
  then show ?thesis by simp
qed

theorem only_id_replaced_witness:
  "row_V007 ''ID'' = Some (Str ''V007'')
   \<and> row_V007 ''Full Victory Condition Statement'' = Some (Str ''I cannot be harmed by steel.'')
   \<and> row_V007 ''Category'' = Some (Str ''Combat'')
   \<and> json_dumps_payload (Str ''I cannot be harmed by steel.'') (current_history (Str ''Combat''))
       = Inr payload_V007
   \<and> completion x_reworded 0 (chat_request cfg0 payload_V007) = Inr reply_reworded
   \<and> status reply_reworded = ''CONSEQUENCE'' \<and> hardener_type reply_reworded = ''PHYSICAL''
   \<and> upsert_raises x_reworded 0
        (reply_reworded\<lparr>id' := new_id (Str ''V007'') (uuid4 x_reworded 0)\<rparr>) = None
   \<and> upserts (snd (process_row cfg0 x_reworded 0 row_V007 world0))
       = [reply_reworded\<lparr>id' := new_id (Str ''V007'') (uuid4 x_reworded 0)\<rparr>]"
proof -
  have c: "completion x_reworded 0 (chat_request cfg0 payload_V007) = Inr reply_reworded"
    by (simp add: x_defs)
  have s: "status reply_reworded = ''CONSEQUENCE''" "hardener_type reply_reworded = ''PHYSICAL''"
    by (simp_all add: reply_reworded_def)
  have t: "status reply_reworded \<in> set [''CONTRADICTION'', ''CONSEQUENCE'']"
    "hardener_type reply_reworded \<in> set [''PHYSICAL'', ''TEMPORAL'', ''SOCIAL'', ''OTHER'']"
    by (simp_all add: s)
  have u: "upsert_raises x_reworded 0
             (reply_reworded\<lparr>id' := new_id (Str ''V007'') (uuid4 x_reworded 0)\<rparr>) = None"
    by (simp add: x_defs)
  show ?thesis
    using only_id_replaced [OF row_V007_cols(1-3) payload_V007 c t u, of world0]
      row_V007_cols payload_V007 c s u
    by simp
qed

section \<open>The loop\<close>

text \<open>
  C3. Every item the loop writes to storage is a reply of the service whose \<^verbatim>\<open>id\<close> has
  been replaced, before the write, by the case identifier of its row, a hyphen and the first
  eight characters of the random identifier drawn for that row, whatever \<^verbatim>\<open>id\<close> the
  service had given it.
\<close>

theorem stored_id_is_case_id_and_fresh_suffix:
  "\<exists>u. upserts (snd (iterrows_loop cfg x k df w)) = upserts w @ u \<and>
       (\<forall>d\<in>set u. \<exists>j<length df. \<exists>rid reply um.
           (df ! j) ''ID'' = Some rid
         \<and> completion x (k + j) (chat_request cfg um) = Inr reply
         \<and> d = reply\<lparr>id' := str_cell rid @ ''-'' @ take 8 (str_uuid (uuid4 x (k + j)))\<rparr>
         \<and> id' d = str_cell rid @ ''-'' @ take 8 (str_uuid (uuid4 x (k + j)))
         \<and> length (take 8 (str_uuid (uuid4 x (k + j)))) = 8)"
proof -
  let ?u = "upserts (snd (iterrows_loop cfg x k df world0))"
  have whole: "upserts (snd (iterrows_loop cfg x k df w)) = upserts w @ ?u"
    using iterrows_loop_frame [of cfg x k df w] by simp
  have each: "\<exists>j<length df. \<exists>rid reply um.
           (df ! j) ''ID'' = Some rid
         \<and> completion x (k + j) (chat_request cfg um) = Inr reply
         \<and> d = reply\<lparr>id' := str_cell rid @ ''-'' @ take 8 (str_uuid (uuid4 x (k + j)))\<rparr>
         \<and> id' d = str_cell rid @ ''-'' @ take 8 (str_uuid (uuid4 x (k + j)))
         \<and> length (take 8 (str_uuid (uuid4 x (k + j)))) = 8"
    if "d \<in> set ?u" for d
  proof -
    from that obtain i r where ir: "(i, r) \<in> set (enumerate k df)"
      and d: "d \<in> set (upserts (snd (process_row cfg x i r world0)))"
      using iterrows_loop_upserts_sub [of cfg x k df] by auto
    from ir have i: "i - k < length df" "df ! (i - k) = r" "k + (i - k) = i"
      by (auto simp: in_set_enumerate_eq)
    from d obtain rid resp um where rid: "r ''ID'' = Some rid"
      and cr: "create x i (chat_request cfg um) = Inr resp"
      and ds: "d = stored_item rid (uuid4 x i) resp"
      using process_row_upserts_sub [of d cfg x i r] by blast
    from cr have co: "completion x i (chat_request cfg um) = Inr resp"
      by (simp add: create_Inr_iff)
    from ds have dd: "d = resp\<lparr>id' := str_cell rid @ ''-'' @ take 8 (str_uuid (uuid4 x i))\<rparr>"
      by (simp add: stored_item_def model_dump_def new_id_def)
    then have di: "id' d = str_cell rid @ ''-'' @ take 8 (str_uuid (uuid4 x i))"
      by simp
    have "(df ! (i - k)) ''ID'' = Some rid
         \<and> completion x (k + (i - k)) (chat_request cfg um) = Inr resp
         \<and> d = resp\<lparr>id' := str_cell rid @ ''-'' @ take 8 (str_uuid (uuid4 x (k + (i - k))))\<rparr>
         \<and> id' d = str_cell rid @ ''-'' @ take 8 (str_uuid (uuid4 x (k + (i - k))))
         \<and> length (take 8 (str_uuid (uuid4 x (k + (i - k))))) = 8"
      using rid co dd di by (simp only: i length_suffix)
    with i(1) show ?thesis by blast
  qed
  from whole each show ?thesis by blast
qed

theorem stored_id_is_case_id_and_fresh_suffix_witness:
  "map id' (upserts (snd (iterrows_loop cfg0 x_ok 0 [row_V007] world0)))
     = [''V007-'' @ take 8 (str_uuid (uuid4 x_ok 0))]
   \<and> id' reply_V007 = ''c0ffee00-0000-4000-8000-000000000001''
   \<and> length (''V007-'' @ take 8 (str_uuid (uuid4 x_ok 0))) = 13"
  using stored_id_is_case_id_and_fresh_suffix [of cfg0 x_ok 0 "[row_V007]" world0]
  by (simp add: iterrows_loop_V007 stored_item_def model_dump_def new_id_def reply_V007_def
        del: iterrows_loop.simps)






text \<open>
  C4. Claim: in a run over valid rows exactly one upsert occurs for every row.

  With the client of line 90 the call of lines 110-118 raises \<^verbatim>\<open>TypeError\<close> for every
  row, inside the \<^verbatim>\<open>try\<close>: over the three valid rows of \<open>df3\<close> the loop ends normally
  with three calls and three error lines, and no item is written.
\<close>

theorem no_upsert_with_the_openai_client:
  "length df3 = 3
   \<and> iterrows_loop cfg0 x_openai 0 df3 world0
     = (Inr (),
        \<lparr>logs = [(ERROR, critical_error_message (Str ''V007'')
                           (Str ''I cannot be harmed by steel.'') response_model_TypeError),
                 (ERROR, critical_error_message (Str ''V008'')
                           (Str ''I can cast any spell at no cost.'') response_model_TypeError),
                 (ERROR, critical_error_message (Str ''V007'')
                           (Str ''I cannot be harmed by steel.'') response_model_TypeError)],
         requests = [chat_request cfg0 payload_V007, chat_request cfg0 payload_V008,
                     chat_request cfg0 payload_V007],
         upserts = []\<rparr>)"
  by (simp add: df3_def world0_def
        process_row_x_openai [OF row_V007_cols payload_V007]
        process_row_x_openai [OF row_V008_cols payload_V008])

section \<open>The entry point\<close>

text \<open>
  C6. Claim: if one of the six required settings is absent, the HTTP endpoint returns a 500
  response whose message names the missing setting, before any row is processed and with
  no storage write.

  The code at the settings without \<^verbatim>\<open>COSMOS_KEY\<close>: the \<^verbatim>\<open>EnvironmentError\<close> that names
  the setting is raised while the module is loaded, so the entry point and its handler for
  \<^verbatim>\<open>EnvironmentError\<close> (lines 156-162) never run and the program builds no response. Nothing
  is logged, sent or written.
\<close>

theorem missing_setting_fails_at_import:
  "function_app environ_no_COSMOS_KEY x w =
     (ImportFailed (Exn EnvironmentError
        (''Missing required Function App setting (Environment Variable): 'COSMOS_KEY'' @ sq)), w)"
  by (simp add: function_app_def module_setup_def read_settings_def environ_getitem_def
        environ_get_def environ_no_COSMOS_KEY_def repr_str_def sq_def)

text \<open>
  C7. Claim: an error outside the row loop, such as a missing input file, aborts the batch
  and is surfaced at the HTTP boundary as a generic runtime failure with status 500.

  The code when \<^verbatim>\<open>victory.csv\<close> is missing: \<^verbatim>\<open>FileNotFoundError\<close> is an
  \<^verbatim>\<open>EnvironmentError\<close>, so the first handler takes it. The status is 500, but the response
  and the log report a missing environment variable, not a runtime failure.
\<close>

theorem missing_file_reported_as_configuration_error:
  "http_trigger_function cfg x_no_file world0 =
     (\<lparr>body = ''Deployment FAILED due to missing environment variable. Check Application Settings. Error: [Errno 2] No such file or directory: 'victory.csv'' @ sq,
       status_code = 500\<rparr>,
      \<lparr>logs = [(INFO, ''Python HTTP trigger function (SimulateL_T) received a request.''),
               (ERROR, ''Configuration Error: [Errno 2] No such file or directory: 'victory.csv'' @ sq)],
       requests = [], upserts = []\<rparr>)"
  by (simp add: http_trigger_function_def run_simulation_batch_def x_defs world0_def
        logging_info_def logging_error_def repr_str_def sq_def)

text \<open>
  C10. For an input file with no data rows (and clients that can be constructed), the batch
  sends no request and writes nothing, logs the start line and the completion line after
  the line of the entry point, and the endpoint returns status 200 with the success message.
\<close>

theorem empty_file_succeeds:
  assumes "CosmosClient_raises x = None" and "read_csv x ''victory.csv'' = Inr []"
    and "AzureOpenAI_raises x = None"
  shows "http_trigger_function cfg x w =
     (\<lparr>body = L_equiv_T @ '' Mass Simulation Started and Completed Successfully. Data is in Cosmos DB. Check Azure Function Logs for batch status.'',
       status_code = 200\<rparr>,
      w\<lparr>logs := logs w @
          [(INFO, ''Python HTTP trigger function (SimulateL_T) received a request.''),
           (INFO, ''Starting '' @ L_equiv_T @ '' simulation for 0 cases found in victory.csv.''),
           (INFO, check_mark @ '' Mass Simulation Complete. All data processing finished.'')]\<rparr>)"
  using assms
  by (simp add: http_trigger_function_def run_simulation_batch_def logging_info_def
        str_nat.simps digit_char_def)

theorem empty_file_succeeds_witness:
  "CosmosClient_raises x_empty_file = None \<and> read_csv x_empty_file ''victory.csv'' = Inr []
   \<and> AzureOpenAI_raises x_empty_file = None
   \<and> status_code (fst (http_trigger_function cfg0 x_empty_file world0)) = 200
   \<and> length (logs (snd (http_trigger_function cfg0 x_empty_file world0))) = 3
   \<and> requests (snd (http_trigger_function cfg0 x_empty_file world0)) = []
   \<and> upserts (snd (http_trigger_function cfg0 x_empty_file world0)) = []"
proof -
  have h: "CosmosClient_raises x_empty_file = None" "read_csv x_empty_file ''victory.csv'' = Inr []"
    "AzureOpenAI_raises x_empty_file = None"
    by (simp_all add: x_defs)
  show ?thesis
    using h empty_file_succeeds [OF h, of cfg0 world0] by simp
qed

text \<open>
  C8. Claim: for the V007 row of the specification a verdict is stored, whose \<^verbatim>\<open>id\<close>
  starts with \<^verbatim>\<open>V007-\<close> and which holds the statement and the four-entry history.

  With the client of line 90 and a file that holds this row, the call raises
  \<^verbatim>\<open>TypeError\<close>: the endpoint answers 200 with the success message, the row is logged as
  an error, and no verdict is stored.
\<close>

theorem no_verdict_for_the_V007_row:
  "read_csv x_openai ''victory.csv'' = Inr [row_V007]
   \<and> http_trigger_function cfg0 x_openai world0
     = (\<lparr>body = L_equiv_T @ '' Mass Simulation Started and Completed Successfully. Data is in Cosmos DB. Check Azure Function Logs for batch status.'',
         status_code = 200\<rparr>,
        \<lparr>logs = [(INFO, ''Python HTTP trigger function (SimulateL_T) received a request.''),
                 (INFO, ''Starting '' @ L_equiv_T @ '' simulation for 1 cases found in victory.csv.''),
                 (ERROR, critical_error_message (Str ''V007'')
                           (Str ''I cannot be harmed by steel.'') response_model_TypeError),
                 (INFO, check_mark @ '' Mass Simulation Complete. All data processing finished.'')],
         requests = [chat_request cfg0 payload_V007],
         upserts = []\<rparr>)"
proof -
  have x: "CosmosClient_raises x_openai = None" "read_csv x_openai p = Inr [row_V007]"
    "AzureOpenAI_raises x_openai = None" for p
    by (simp_all add: x_openai_def x_ok_def)
  show ?thesis
    by (simp add: http_trigger_function_def run_simulation_batch_def logging_info_def
          x world0_def str_nat.simps digit_char_def
          process_row_x_openai [OF row_V007_cols payload_V007])
qed

end
